theory Spec2Isabelle
  imports Complex_Main
begin

section \<open>The 3D vector class of Vector.py\<close>

text \<open>
  The embedding follows \<^verbatim>\<open>src/Vector.py\<close>, method by method.

  \<^item> A Python number is an \<open>int\<close> or a \<open>float\<close> (\<open>pyval\<close>). A float is modelled
    by the real number it denotes. Every operation that produces a float takes
    the rounding \<open>fl\<close> of its exact result as a parameter. With \<open>fl = exact\<close> the
    arithmetic is that of the real numbers; with \<open>fl = binary64\<close> it is that of
    the machine, each result rounded to the nearest double. Infinities, NaN and
    the bounds of the exponent are outside the model.
  \<^item> An exception is the \<open>Inl\<close> of a sum type.
  \<^item> The instance is a record of its four private attributes. A method that
    assigns to an attribute of an instance returns that instance updated, next to
    its result.
\<close>

subsection \<open>Rounding\<close>

type_synonym rounding = "real \<Rightarrow> real"

definition exact :: rounding where
  "exact x = x"

text \<open>Rounding to the nearest integer, a tie going to the even neighbour.\<close>

definition round_half_even :: "real \<Rightarrow> int" where
  "round_half_even x =
     (let n = \<lfloor>x\<rfloor>; d = x - of_int n in
      if d < 1 / 2 then n else if 1 / 2 < d then n + 1 else if even n then n else n + 1)"

text \<open>
  \<open>scale n m 0\<close> brings a positive \<open>m\<close> into \<open>[2\<^sup>5\<^sup>2, 2\<^sup>5\<^sup>3)\<close> by doubling or
  halving, at most \<open>n\<close> times, and counts the exponent.
\<close>

fun scale :: "nat \<Rightarrow> real \<Rightarrow> int \<Rightarrow> real \<times> int" where
  "scale 0 m e = (m, e)"
| "scale (Suc n) m e =
     (if m < 2 ^ 52 then scale n (2 * m) (e - 1)
      else if 2 ^ 53 \<le> m then scale n (m / 2) (e + 1)
      else (m, e))"

text \<open>
  The double nearest to \<open>x\<close>: a significand of 53 bits, ties to even. The 2200
  steps cover every exponent of the format.
\<close>

definition binary64 :: rounding where
  "binary64 x =
     (if x = 0 then 0
      else (case scale 2200 \<bar>x\<bar> 0 of
              (m, e) \<Rightarrow> sgn x * of_int (round_half_even m) * 2 powi e))"

subsection \<open>Python numbers\<close>

datatype pyval = PyInt int | PyFloat real

datatype error = ValueError string | ZeroDivisionError

text \<open>\<^verbatim>\<open>float(v)\<close> on a number: an int is rounded to a float, a float is itself.\<close>

fun float_py :: "rounding \<Rightarrow> pyval \<Rightarrow> real" where
  "float_py fl (PyInt n) = fl (of_int n)"
| "float_py fl (PyFloat r) = r"

text \<open>
  \<^verbatim>\<open>a + b\<close>, \<^verbatim>\<open>a - b\<close>, \<^verbatim>\<open>a * b\<close>: an int when both operands are ints;
  otherwise both are taken as floats and the result is a float.
\<close>

fun py_add :: "rounding \<Rightarrow> pyval \<Rightarrow> pyval \<Rightarrow> pyval" where
  "py_add fl (PyInt a) (PyInt b) = PyInt (a + b)"
| "py_add fl a b = PyFloat (fl (float_py fl a + float_py fl b))"

fun py_sub :: "rounding \<Rightarrow> pyval \<Rightarrow> pyval \<Rightarrow> pyval" where
  "py_sub fl (PyInt a) (PyInt b) = PyInt (a - b)"
| "py_sub fl a b = PyFloat (fl (float_py fl a - float_py fl b))"

fun py_mul :: "rounding \<Rightarrow> pyval \<Rightarrow> pyval \<Rightarrow> pyval" where
  "py_mul fl (PyInt a) (PyInt b) = PyInt (a * b)"
| "py_mul fl a b = PyFloat (fl (float_py fl a * float_py fl b))"

text \<open>
  \<^verbatim>\<open>a ** n\<close> for a literal exponent \<open>n \<ge> 0\<close>: exact on an int, the rounded
  power on a float.
\<close>

fun py_pow :: "rounding \<Rightarrow> pyval \<Rightarrow> nat \<Rightarrow> pyval" where
  "py_pow fl (PyInt a) n = PyInt (a ^ n)"
| "py_pow fl (PyFloat r) n = PyFloat (fl (r ^ n))"

text \<open>
  \<^verbatim>\<open>a / b\<close>: always a float, the rounded quotient; a zero divisor raises.
\<close>

fun py_truediv :: "rounding \<Rightarrow> pyval \<Rightarrow> pyval \<Rightarrow> error + pyval" where
  "py_truediv fl (PyInt a) (PyInt b) =
     (if b = 0 then Inl ZeroDivisionError
      else Inr (PyFloat (fl (of_int a / of_int b))))"
| "py_truediv fl a b =
     (if float_py fl b = 0 then Inl ZeroDivisionError
      else Inr (PyFloat (fl (float_py fl a / float_py fl b))))"

text \<open>\<^verbatim>\<open>sum(xs)\<close>: starts from the int 0 and adds from the left.\<close>

definition py_sum :: "rounding \<Rightarrow> pyval list \<Rightarrow> pyval" where
  "py_sum fl xs = foldl (py_add fl) (PyInt 0) xs"

text \<open>\<^verbatim>\<open>math.sqrt(a)\<close>: a float; a negative argument raises.\<close>

definition math_sqrt :: "rounding \<Rightarrow> pyval \<Rightarrow> error + real" where
  "math_sqrt fl a =
     (if float_py fl a < 0 then Inl (ValueError ''math domain error'')
      else Inr (fl (sqrt (float_py fl a))))"

text \<open>
  \<^verbatim>\<open>math.isclose(a, b)\<close> of the standard library, called everywhere in
  Vector.py with its default tolerances \<^verbatim>\<open>rel_tol=1e-09\<close> and \<^verbatim>\<open>abs_tol=0.0\<close>.
  The definition follows the library's implementation on finite values: equal
  values are close; otherwise the difference is compared with the relative
  tolerance scaled by each operand, and with the absolute tolerance.
\<close>

definition rel_tol :: "rounding \<Rightarrow> real" where
  "rel_tol fl = fl (1 / 10 ^ 9)"

definition abs_tol :: real where
  "abs_tol = 0"

definition isclose :: "rounding \<Rightarrow> pyval \<Rightarrow> pyval \<Rightarrow> bool" where
  "isclose fl a b =
     (let x = float_py fl a; y = float_py fl b in
      if x = y then True
      else (let diff = \<bar>fl (y - x)\<bar> in
            (diff \<le> \<bar>fl (rel_tol fl * y)\<bar> \<or> diff \<le> \<bar>fl (rel_tol fl * x)\<bar>)
            \<or> diff \<le> abs_tol))"

subsection \<open>The instance, its constructor and its accessors\<close>

text \<open>
  The attributes \<^verbatim>\<open>_x\<close>, \<^verbatim>\<open>_y\<close>, \<^verbatim>\<open>_z\<close> and \<^verbatim>\<open>_magnitude\<close>
  (\<open>None\<close> or a float).
\<close>

record Vector =
  priv_x :: pyval
  priv_y :: pyval
  priv_z :: pyval
  priv_magnitude :: "real option"

text \<open>\<^verbatim>\<open>Vector(x, y, z)\<close>, that is \<^verbatim>\<open>__init__\<close>.\<close>

definition Vector_init :: "rounding \<Rightarrow> pyval \<Rightarrow> pyval \<Rightarrow> pyval \<Rightarrow> Vector" where
  "Vector_init fl x y z =
     \<lparr>priv_x = PyFloat (float_py fl x), priv_y = PyFloat (float_py fl y),
      priv_z = PyFloat (float_py fl z), priv_magnitude = None\<rparr>"

definition get_x :: "Vector \<Rightarrow> pyval" where
  "get_x self = priv_x self"

definition set_x :: "rounding \<Rightarrow> Vector \<Rightarrow> pyval \<Rightarrow> Vector" where
  "set_x fl self new_x =
     self\<lparr>priv_x := PyFloat (float_py fl new_x), priv_magnitude := None\<rparr>"

definition get_y :: "Vector \<Rightarrow> pyval" where
  "get_y self = priv_y self"

definition set_y :: "rounding \<Rightarrow> Vector \<Rightarrow> pyval \<Rightarrow> Vector" where
  "set_y fl self new_y =
     self\<lparr>priv_y := PyFloat (float_py fl new_y), priv_magnitude := None\<rparr>"

definition get_z :: "Vector \<Rightarrow> pyval" where
  "get_z self = priv_z self"

text \<open>The setter of \<open>z\<close> assigns its argument as it is: the source has no \<^verbatim>\<open>float(...)\<close> here.\<close>

definition set_z :: "Vector \<Rightarrow> pyval \<Rightarrow> Vector" where
  "set_z self new_z = self\<lparr>priv_z := new_z, priv_magnitude := None\<rparr>"

subsection \<open>Arithmetic\<close>

text \<open>\<^verbatim>\<open>__add__(self, *vectors)\<close> and \<^verbatim>\<open>__sub__(self, *vectors)\<close>.\<close>

definition add :: "rounding \<Rightarrow> Vector \<Rightarrow> Vector list \<Rightarrow> Vector" where
  "add fl self vectors =
     Vector_init fl (py_add fl (get_x self) (py_sum fl (map get_x vectors)))
                    (py_add fl (get_y self) (py_sum fl (map get_y vectors)))
                    (py_add fl (get_z self) (py_sum fl (map get_z vectors)))"

definition sub :: "rounding \<Rightarrow> Vector \<Rightarrow> Vector list \<Rightarrow> Vector" where
  "sub fl self vectors =
     Vector_init fl (py_sub fl (get_x self) (py_sum fl (map get_x vectors)))
                    (py_sub fl (get_y self) (py_sum fl (map get_y vectors)))
                    (py_sub fl (get_z self) (py_sum fl (map get_z vectors)))"

text \<open>\<^verbatim>\<open>__mul__\<close> (\<^verbatim>\<open>self * scalar\<close>) and \<^verbatim>\<open>__rmul__\<close> (\<^verbatim>\<open>scalar * self\<close>).\<close>

definition mul :: "rounding \<Rightarrow> Vector \<Rightarrow> pyval \<Rightarrow> Vector" where
  "mul fl self scalar =
     Vector_init fl (py_mul fl (get_x self) scalar) (py_mul fl (get_y self) scalar)
                    (py_mul fl (get_z self) scalar)"

definition rmul :: "rounding \<Rightarrow> Vector \<Rightarrow> pyval \<Rightarrow> Vector" where
  "rmul fl self scalar = mul fl self scalar"

subsection \<open>Magnitude and the queries built on it\<close>

text \<open>
  \<^verbatim>\<open>magnitude\<close> fills the cache when it is empty. The result comes with the
  instance as the call leaves it.
\<close>

definition magnitude :: "rounding \<Rightarrow> Vector \<Rightarrow> (error + real) \<times> Vector" where
  "magnitude fl self =
     (case priv_magnitude self of
        None \<Rightarrow>
          (case math_sqrt fl
                  (py_add fl (py_add fl (py_pow fl (get_x self) 2) (py_pow fl (get_y self) 2))
                             (py_pow fl (get_z self) 2)) of
             Inl e \<Rightarrow> (Inl e, self)
           | Inr m \<Rightarrow> (Inr m, self\<lparr>priv_magnitude := Some m\<rparr>))
      | Some m \<Rightarrow> (Inr m, self))"

definition normalize :: "rounding \<Rightarrow> Vector \<Rightarrow> (error + Vector) \<times> Vector" where
  "normalize fl self =
     (case magnitude fl self of
        (Inl e, self') \<Rightarrow> (Inl e, self')
      | (Inr mag, self') \<Rightarrow>
          if isclose fl (PyFloat mag) (PyFloat 0)
          then (Inl (ValueError ''Cannot normalize a zero vector''), self')
          else (case py_truediv fl (PyInt 1) (PyFloat mag) of
                  Inl e \<Rightarrow> (Inl e, self')
                | Inr k \<Rightarrow> (Inr (mul fl self' k), self')))"

definition dot_product :: "rounding \<Rightarrow> Vector \<Rightarrow> Vector \<Rightarrow> pyval" where
  "dot_product fl self v =
     py_add fl (py_add fl (py_mul fl (get_x self) (get_x v)) (py_mul fl (get_y self) (get_y v)))
               (py_mul fl (get_z self) (get_z v))"

definition cross_product :: "rounding \<Rightarrow> Vector \<Rightarrow> Vector \<Rightarrow> Vector" where
  "cross_product fl self v =
     Vector_init fl
       (py_sub fl (py_mul fl (get_y self) (get_z v)) (py_mul fl (get_z self) (get_y v)))
       (py_sub fl (py_mul fl (get_z self) (get_x v)) (py_mul fl (get_x self) (get_z v)))
       (py_sub fl (py_mul fl (get_x self) (get_y v)) (py_mul fl (get_y self) (get_x v)))"

definition triple_scalar_product :: "rounding \<Rightarrow> Vector \<Rightarrow> Vector \<Rightarrow> Vector \<Rightarrow> pyval" where
  "triple_scalar_product fl self v w = dot_product fl self (cross_product fl v w)"

definition triple_vector_product :: "rounding \<Rightarrow> Vector \<Rightarrow> Vector \<Rightarrow> Vector \<Rightarrow> Vector" where
  "triple_vector_product fl self v w =
     sub fl (mul fl v (dot_product fl self w)) [mul fl w (dot_product fl self v)]"

text \<open>
  \<^verbatim>\<open>projection\<close> calls \<^verbatim>\<open>v.magnitude()\<close>, so it is the argument whose cache
  may be filled: the second component is \<open>v\<close> after the call.
\<close>

definition projection :: "rounding \<Rightarrow> Vector \<Rightarrow> Vector \<Rightarrow> (error + Vector) \<times> Vector" where
  "projection fl self v =
     (case magnitude fl v of
        (Inl e, v') \<Rightarrow> (Inl e, v')
      | (Inr m, v') \<Rightarrow>
          (let mag_v_sq = py_pow fl (PyFloat m) 2 in
           if isclose fl mag_v_sq (PyFloat 0)
           then (Inl (ValueError ''Cannot project onto a zero vector''), v')
           else (case py_truediv fl (dot_product fl self v') mag_v_sq of
                   Inl e \<Rightarrow> (Inl e, v')
                 | Inr k \<Rightarrow> (Inr (mul fl v' k), v'))))"

definition rejection :: "rounding \<Rightarrow> Vector \<Rightarrow> Vector \<Rightarrow> (error + Vector) \<times> Vector" where
  "rejection fl self v =
     (case projection fl self v of
        (Inl e, v') \<Rightarrow> (Inl e, v')
      | (Inr p, v') \<Rightarrow> (Inr (sub fl self [p]), v'))"

definition reflect :: "rounding \<Rightarrow> Vector \<Rightarrow> Vector \<Rightarrow> (error + Vector) \<times> Vector" where
  "reflect fl self normal =
     (case projection fl self normal of
        (Inl e, normal') \<Rightarrow> (Inl e, normal')
      | (Inr p, normal') \<Rightarrow> (Inr (sub fl self [rmul fl p (PyInt 2)]), normal'))"

text \<open>
  \<^verbatim>\<open>direction_cosine\<close> returns a tuple of three floats or the string
  \<^verbatim>\<open>"Undefined for zero vector"\<close>.
\<close>

datatype direction = Cosines pyval pyval pyval | Message string

definition direction_cosine :: "rounding \<Rightarrow> Vector \<Rightarrow> (error + direction) \<times> Vector" where
  "direction_cosine fl self =
     (case magnitude fl self of
        (Inl e, self') \<Rightarrow> (Inl e, self')
      | (Inr mag, self') \<Rightarrow>
          if isclose fl (PyFloat mag) (PyFloat 0)
          then (Inr (Message ''Undefined for zero vector''), self')
          else (case py_truediv fl (get_x self') (PyFloat mag) of
                  Inl e \<Rightarrow> (Inl e, self')
                | Inr cx \<Rightarrow>
                   (case py_truediv fl (get_y self') (PyFloat mag) of
                      Inl e \<Rightarrow> (Inl e, self')
                    | Inr cy \<Rightarrow>
                       (case py_truediv fl (get_z self') (PyFloat mag) of
                          Inl e \<Rightarrow> (Inl e, self')
                        | Inr cz \<Rightarrow> (Inr (Cosines cx cy cz), self')))))"

definition is_zero :: "rounding \<Rightarrow> Vector \<Rightarrow> (error + bool) \<times> Vector" where
  "is_zero fl self =
     (case magnitude fl self of
        (Inl e, self') \<Rightarrow> (Inl e, self')
      | (Inr mag, self') \<Rightarrow> (Inr (isclose fl (PyFloat mag) (PyFloat 0)), self'))"

definition is_unit :: "rounding \<Rightarrow> Vector \<Rightarrow> (error + bool) \<times> Vector" where
  "is_unit fl self =
     (case magnitude fl self of
        (Inl e, self') \<Rightarrow> (Inl e, self')
      | (Inr mag, self') \<Rightarrow> (Inr (isclose fl (PyFloat mag) (PyFloat 1)), self'))"

text \<open>
  \<^verbatim>\<open>is_parallel\<close> asks \<^verbatim>\<open>is_zero\<close> of a vector it has just built; neither
  \<open>self\<close> nor \<open>v\<close> is assigned to.
\<close>

definition is_parallel :: "rounding \<Rightarrow> Vector \<Rightarrow> Vector \<Rightarrow> error + bool" where
  "is_parallel fl self v = fst (is_zero fl (cross_product fl self v))"

definition to_tuple :: "Vector \<Rightarrow> pyval \<times> pyval \<times> pyval" where
  "to_tuple self = (get_x self, get_y self, get_z self)"

subsection \<open>Equality\<close>

text \<open>
  The right operand of \<^verbatim>\<open>==\<close> is any object: an instance of the class, or a
  value of some other type \<open>'a\<close> (a number, a tuple, a string, \<open>None\<close>).
\<close>

datatype 'a pyobj = IsVector Vector | NotVector 'a

fun eq :: "rounding \<Rightarrow> Vector \<Rightarrow> 'a pyobj \<Rightarrow> bool" where
  "eq fl self (NotVector other) = False"
| "eq fl self (IsVector v) =
     (isclose fl (get_x self) (get_x v) \<and>
      isclose fl (get_y self) (get_y v) \<and>
      isclose fl (get_z self) (get_z v))"

subsection \<open>What the specification says of the cache and of closeness\<close>

text \<open>
  The Euclidean norm of the current coordinates, \<open>\<surd>(x\<^sup>2 + y\<^sup>2 + z\<^sup>2)\<close>, as a real
  number, and as the arithmetic \<open>fl\<close> computes it from the current coordinates.
\<close>

definition euclidean_norm :: "Vector \<Rightarrow> real" where
  "euclidean_norm v =
     sqrt ((float_py exact (get_x v))\<^sup>2 + (float_py exact (get_y v))\<^sup>2
           + (float_py exact (get_z v))\<^sup>2)"

definition computed_norm :: "rounding \<Rightarrow> Vector \<Rightarrow> error + real" where
  "computed_norm fl v =
     math_sqrt fl (py_add fl (py_add fl (py_pow fl (get_x v) 2) (py_pow fl (get_y v) 2))
                             (py_pow fl (get_z v) 2))"

text \<open>
  The invariant of the specification: a cached magnitude, when present, is the
  norm of the current coordinates.
\<close>

definition cache_ok :: "rounding \<Rightarrow> Vector \<Rightarrow> bool" where
  "cache_ok fl v =
     (case priv_magnitude v of None \<Rightarrow> True | Some m \<Rightarrow> computed_norm fl v = Inr m)"

text \<open>
  The states of an instance that the class itself can produce: the constructor
  builds it, and then any setter or any method that assigns to an attribute
  runs on it. (\<^verbatim>\<open>projection\<close>, \<^verbatim>\<open>rejection\<close> and \<^verbatim>\<open>reflect\<close> assign to
  their argument, whatever the receiver \<open>u\<close>.)
\<close>

inductive reachable :: "rounding \<Rightarrow> Vector \<Rightarrow> bool" for fl :: rounding where
  r_init: "reachable fl (Vector_init fl a b c)"
| r_set_x: "reachable fl v \<Longrightarrow> reachable fl (set_x fl v a)"
| r_set_y: "reachable fl v \<Longrightarrow> reachable fl (set_y fl v a)"
| r_set_z: "reachable fl v \<Longrightarrow> reachable fl (set_z v a)"
| r_magnitude: "reachable fl v \<Longrightarrow> reachable fl (snd (magnitude fl v))"
| r_normalize: "reachable fl v \<Longrightarrow> reachable fl (snd (normalize fl v))"
| r_projection: "reachable fl v \<Longrightarrow> reachable fl (snd (projection fl u v))"
| r_rejection: "reachable fl v \<Longrightarrow> reachable fl (snd (rejection fl u v))"
| r_reflect: "reachable fl v \<Longrightarrow> reachable fl (snd (reflect fl u v))"
| r_direction_cosine: "reachable fl v \<Longrightarrow> reachable fl (snd (direction_cosine fl v))"
| r_is_zero: "reachable fl v \<Longrightarrow> reachable fl (snd (is_zero fl v))"
| r_is_unit: "reachable fl v \<Longrightarrow> reachable fl (snd (is_unit fl v))"

text \<open>
  Closeness as the standard library documents it for \<^verbatim>\<open>math.isclose\<close>: the
  difference is at most the larger of the relative tolerance, scaled by the
  larger operand, and the absolute tolerance.
\<close>

definition approx_equal :: "real \<Rightarrow> real \<Rightarrow> bool" where
  "approx_equal x y = (\<bar>x - y\<bar> \<le> max (1 / 10 ^ 9 * max \<bar>x\<bar> \<bar>y\<bar>) 0)"

section \<open>Properties\<close>

subsection \<open>Evaluating the two roundings\<close>

lemma exact_apply [simp]: "exact x = x"
  by (simp add: exact_def)

lemma scale_numeral [simp]:
  "scale (numeral k) m e =
     (if m < 2 ^ 52 then scale (pred_numeral k) (2 * m) (e - 1)
      else if 2 ^ 53 \<le> m then scale (pred_numeral k) (m / 2) (e + 1)
      else (m, e))"
  by (simp add: numeral_eq_Suc)

text \<open>
  The rounding on familiar values: the doubles written \<^verbatim>\<open>0.1\<close> and \<^verbatim>\<open>0.3\<close>,
  the sum \<^verbatim>\<open>0.1 + 0.2\<close>, which is not the double \<^verbatim>\<open>0.3\<close>, and a tie, which goes to
  the even significand.
\<close>

lemma binary64_examples:
  "binary64 (1 / 10) = 3602879701896397 / 36028797018963968"
  "binary64 (3 / 10) = 5404319552844595 / 18014398509481984"
  "binary64 (binary64 (1 / 10) + binary64 (2 / 10)) = 1351079888211149 / 4503599627370496"
  "binary64 (2 ^ 53 + 1) = 2 ^ 53"
  "binary64 (2 ^ 53 + 3) = 2 ^ 53 + 4"
  "binary64 (- 12) = - 12"
  by (simp_all add: binary64_def round_half_even_def split del: if_split)

subsection \<open>Exact arithmetic computes the arithmetic of the values\<close>

lemma float_py_add [simp]:
  "float_py exact (py_add exact a b) = float_py exact a + float_py exact b"
  by (cases a; cases b) simp_all

lemma float_py_sub [simp]:
  "float_py exact (py_sub exact a b) = float_py exact a - float_py exact b"
  by (cases a; cases b) simp_all

lemma float_py_mul [simp]:
  "float_py exact (py_mul exact a b) = float_py exact a * float_py exact b"
  by (cases a; cases b) simp_all

lemma float_py_pow [simp]: "float_py exact (py_pow exact a n) = float_py exact a ^ n"
  by (cases a) simp_all

lemma py_truediv_exact:
  "py_truediv exact a b =
     (if float_py exact b = 0 then Inl ZeroDivisionError
      else Inr (PyFloat (float_py exact a / float_py exact b)))"
  by (cases a; cases b) simp_all

lemma float_py_sum:
  "float_py exact (py_sum exact xs) = sum_list (map (float_py exact) xs)"
proof -
  have "float_py exact (foldl (py_add exact) acc xs)
        = float_py exact acc + sum_list (map (float_py exact) xs)" for acc
    by (induction xs arbitrary: acc) simp_all
  then show ?thesis by (simp add: py_sum_def)
qed

lemma float_py_sum_single [simp]: "float_py exact (py_sum exact [a]) = float_py exact a"
  by (simp add: float_py_sum)

lemma get_Vector_init [simp]:
  "get_x (Vector_init fl a b c) = PyFloat (float_py fl a)"
  "get_y (Vector_init fl a b c) = PyFloat (float_py fl b)"
  "get_z (Vector_init fl a b c) = PyFloat (float_py fl c)"
  "priv_magnitude (Vector_init fl a b c) = None"
  by (simp_all add: Vector_init_def get_x_def get_y_def get_z_def)

lemma Vector_init_eqI:
  "float_py fl a = float_py fl a' \<Longrightarrow> float_py fl b = float_py fl b'
   \<Longrightarrow> float_py fl c = float_py fl c'
   \<Longrightarrow> Vector_init fl a b c = Vector_init fl a' b' c'"
  by (simp add: Vector_init_def)

subsection \<open>The default tolerances against zero\<close>

text \<open>
  With \<^verbatim>\<open>abs_tol=0.0\<close>, a value is close to \<open>0.0\<close> only when it is \<open>0.0\<close>: the
  relative tolerance scales with the operands, and one of them is zero.
\<close>

lemma isclose_zero_iff: "isclose exact a (PyFloat 0) \<longleftrightarrow> float_py exact a = 0"
proof -
  have "\<not> \<bar>x\<bar> \<le> \<bar>rel_tol exact * x\<bar>" if "x \<noteq> 0" for x :: real
  proof -
    have "\<bar>rel_tol exact * x\<bar> = rel_tol exact * \<bar>x\<bar>" by (simp add: rel_tol_def abs_mult)
    moreover have "rel_tol exact * \<bar>x\<bar> < 1 * \<bar>x\<bar>"
      using that by (intro mult_strict_right_mono) (simp_all add: rel_tol_def)
    ultimately show ?thesis by simp
  qed
  then show ?thesis
    by (auto simp: isclose_def Let_def abs_tol_def)
qed

lemma isclose_refl: "isclose fl a a"
  by (simp add: isclose_def)

lemma eq_refl: "eq fl u (IsVector u)"
  by (simp add: isclose_refl)

lemma not_isclose_zero_one: "\<not> isclose exact (PyFloat 0) (PyFloat 1)"
  by (simp add: isclose_def Let_def rel_tol_def abs_tol_def)

subsection \<open>The magnitude and its cache\<close>

lemma euclidean_norm_nonneg: "0 \<le> euclidean_norm v"
  by (simp add: euclidean_norm_def)

lemma euclidean_norm_sq:
  "(euclidean_norm v)\<^sup>2
   = (float_py exact (get_x v))\<^sup>2 + (float_py exact (get_y v))\<^sup>2
     + (float_py exact (get_z v))\<^sup>2"
  by (simp add: euclidean_norm_def)

lemma euclidean_norm_zero_iff:
  "euclidean_norm v = 0
   \<longleftrightarrow> float_py exact (get_x v) = 0 \<and> float_py exact (get_y v) = 0
       \<and> float_py exact (get_z v) = 0"
proof -
  have "a\<^sup>2 + b\<^sup>2 + c\<^sup>2 = 0 \<longleftrightarrow> a = 0 \<and> b = 0 \<and> c = 0" for a b c :: real
    by (smt (verit) zero_le_power2 power2_eq_iff_nonneg zero_eq_power2 sum_power2_eq_zero_iff)
  then show ?thesis by (simp add: euclidean_norm_def)
qed

lemma euclidean_norm_cong:
  "get_x u = get_x v \<Longrightarrow> get_y u = get_y v \<Longrightarrow> get_z u = get_z v
   \<Longrightarrow> euclidean_norm u = euclidean_norm v"
  by (simp add: euclidean_norm_def)

text \<open>Under exact arithmetic the computed norm is the Euclidean norm.\<close>

lemma computed_norm_exact: "computed_norm exact v = Inr (euclidean_norm v)"
  by (simp add: computed_norm_def math_sqrt_def euclidean_norm_def not_less)

lemma cache_ok_exact:
  "cache_ok exact v \<longleftrightarrow> (\<forall>m. priv_magnitude v = Some m \<longrightarrow> m = euclidean_norm v)"
  by (auto simp: cache_ok_def computed_norm_exact split: option.splits)

lemma magnitude_empty_cache:
  "priv_magnitude v = None \<Longrightarrow>
   magnitude fl v = (case computed_norm fl v of
                       Inl e \<Rightarrow> (Inl e, v)
                     | Inr m \<Rightarrow> (Inr m, v\<lparr>priv_magnitude := Some m\<rparr>))"
  by (simp add: magnitude_def computed_norm_def)

lemma magnitude_full_cache:
  "priv_magnitude v = Some m \<Longrightarrow> magnitude fl v = (Inr m, v)"
  by (simp add: magnitude_def)

lemma magnitude_coords [simp]:
  "get_x (snd (magnitude fl v)) = get_x v"
  "get_y (snd (magnitude fl v)) = get_y v"
  "get_z (snd (magnitude fl v)) = get_z v"
  by (cases "priv_magnitude v"; cases "computed_norm fl v";
      simp add: magnitude_empty_cache magnitude_full_cache get_x_def get_y_def get_z_def)+

lemma computed_norm_cong:
  "get_x u = get_x v \<Longrightarrow> get_y u = get_y v \<Longrightarrow> get_z u = get_z v
   \<Longrightarrow> computed_norm fl u = computed_norm fl v"
  by (simp add: computed_norm_def)

lemma magnitude_cache_ok:
  assumes "cache_ok fl v"
  shows "fst (magnitude fl v) = computed_norm fl v" and "cache_ok fl (snd (magnitude fl v))"
proof -
  show "fst (magnitude fl v) = computed_norm fl v"
    using assms
    by (cases "priv_magnitude v"; cases "computed_norm fl v")
       (simp_all add: magnitude_empty_cache magnitude_full_cache cache_ok_def)
  have "computed_norm fl (snd (magnitude fl v)) = computed_norm fl v"
    by (rule computed_norm_cong) simp_all
  then show "cache_ok fl (snd (magnitude fl v))"
    using assms
    by (cases "priv_magnitude v"; cases "computed_norm fl v")
       (simp_all add: magnitude_empty_cache magnitude_full_cache cache_ok_def)
qed

lemma magnitude_exact:
  assumes "cache_ok exact v"
  shows "fst (magnitude exact v) = Inr (euclidean_norm v)"
  using magnitude_cache_ok(1) [OF assms] by (simp add: computed_norm_exact)

lemma magnitude_returns: "\<exists>m. fst (magnitude exact v) = Inr m"
  by (cases "priv_magnitude v")
     (simp_all add: magnitude_empty_cache magnitude_full_cache computed_norm_exact)

lemma snd_normalize: "snd (normalize fl v) = snd (magnitude fl v)"
  by (simp add: normalize_def split: prod.splits sum.splits)

lemma snd_projection: "snd (projection fl u v) = snd (magnitude fl v)"
  by (simp add: projection_def Let_def split: prod.splits sum.splits)

lemma snd_rejection: "snd (rejection fl u v) = snd (magnitude fl v)"
  using snd_projection [of fl u v] by (auto simp: rejection_def split: prod.splits sum.splits)

lemma snd_reflect: "snd (reflect fl u v) = snd (magnitude fl v)"
  using snd_projection [of fl u v] by (auto simp: reflect_def split: prod.splits sum.splits)

lemma snd_direction_cosine: "snd (direction_cosine fl v) = snd (magnitude fl v)"
  by (simp add: direction_cosine_def split: prod.splits sum.splits)

lemma snd_is_zero: "snd (is_zero fl v) = snd (magnitude fl v)"
  by (simp add: is_zero_def split: prod.splits sum.splits)

lemma snd_is_unit: "snd (is_unit fl v) = snd (magnitude fl v)"
  by (simp add: is_unit_def split: prod.splits sum.splits)

lemma cache_ok_init: "cache_ok fl (Vector_init fl' a b c)"
  by (simp add: cache_ok_def)

lemma cache_ok_set:
  "cache_ok fl (set_x fl' v a)" "cache_ok fl (set_y fl' v a)" "cache_ok fl (set_z v a)"
  by (simp_all add: cache_ok_def set_x_def set_y_def set_z_def)

lemma reachable_cache_ok: "reachable fl v \<Longrightarrow> cache_ok fl v"
  by (induction rule: reachable.induct)
     (simp_all add: cache_ok_init cache_ok_set magnitude_cache_ok(2) snd_normalize
        snd_projection snd_rejection snd_reflect snd_direction_cosine snd_is_zero snd_is_unit)

text \<open>
  C1. The cache invariant, in either arithmetic: in every state of an instance
  that the class can produce, a cached magnitude, when present, is the norm that
  the current coordinates give (under exact arithmetic, their Euclidean norm).
  Each of the three setters clears the cache, so the call of \<open>magnitude\<close> that
  follows a setter computes the norm of the coordinates as the setter left them,
  whatever was cached before.
\<close>

theorem cache_invariant:
  "(reachable fl v \<longrightarrow> cache_ok fl v)
   \<and> (reachable exact v \<longrightarrow> (\<forall>m. priv_magnitude v = Some m \<longrightarrow> m = euclidean_norm v))
   \<and> priv_magnitude (set_x fl v a) = None
   \<and> priv_magnitude (set_y fl v a) = None
   \<and> priv_magnitude (set_z v a) = None
   \<and> fst (magnitude fl (set_x fl v a)) = computed_norm fl (set_x fl v a)
   \<and> fst (magnitude fl (set_y fl v a)) = computed_norm fl (set_y fl v a)
   \<and> fst (magnitude fl (set_z v a)) = computed_norm fl (set_z v a)
   \<and> fst (magnitude exact (set_x exact v a))
       = Inr (sqrt ((float_py exact a)\<^sup>2 + (float_py exact (get_y v))\<^sup>2
                    + (float_py exact (get_z v))\<^sup>2))
   \<and> fst (magnitude exact (set_y exact v a))
       = Inr (sqrt ((float_py exact (get_x v))\<^sup>2 + (float_py exact a)\<^sup>2
                    + (float_py exact (get_z v))\<^sup>2))
   \<and> fst (magnitude exact (set_z v a))
       = Inr (sqrt ((float_py exact (get_x v))\<^sup>2 + (float_py exact (get_y v))\<^sup>2
                    + (float_py exact a)\<^sup>2))"
proof -
  have inv: "reachable exact v \<longrightarrow> (\<forall>m. priv_magnitude v = Some m \<longrightarrow> m = euclidean_norm v)"
    using reachable_cache_ok [of exact v] by (simp add: cache_ok_exact)
  have m: "fst (magnitude fl' u) = computed_norm fl' u" if "cache_ok fl' u" for fl' u
    by (rule magnitude_cache_ok(1) [OF that])
  have x: "euclidean_norm (set_x exact v a)
           = sqrt ((float_py exact a)\<^sup>2 + (float_py exact (get_y v))\<^sup>2
                   + (float_py exact (get_z v))\<^sup>2)"
    by (simp add: set_x_def euclidean_norm_def get_x_def get_y_def get_z_def)
  have y: "euclidean_norm (set_y exact v a)
           = sqrt ((float_py exact (get_x v))\<^sup>2 + (float_py exact a)\<^sup>2
                   + (float_py exact (get_z v))\<^sup>2)"
    by (simp add: set_y_def euclidean_norm_def get_x_def get_y_def get_z_def)
  have z: "euclidean_norm (set_z v a)
           = sqrt ((float_py exact (get_x v))\<^sup>2 + (float_py exact (get_y v))\<^sup>2
                   + (float_py exact a)\<^sup>2)"
    by (simp add: set_z_def euclidean_norm_def get_x_def get_y_def get_z_def)
  have clear: "priv_magnitude (set_x fl v a) = None" "priv_magnitude (set_y fl v a) = None"
    "priv_magnitude (set_z v a) = None"
    by (simp_all add: set_x_def set_y_def set_z_def)
  show ?thesis
    using inv clear reachable_cache_ok [of fl v]
    by (simp add: m cache_ok_set computed_norm_exact x y z)
qed

lemma sqrt_25: "sqrt 25 = 5"
  by (rule real_sqrt_unique) simp_all

text \<open>An instance with a filled cache whose \<open>x\<close> is then reassigned.\<close>

theorem cache_invariant_witness:
  "reachable exact
     (set_x exact (snd (magnitude exact (Vector_init exact (PyInt 1) (PyInt 4) (PyInt 0))))
            (PyInt 3))
   \<and> cache_ok exact
     (set_x exact (snd (magnitude exact (Vector_init exact (PyInt 1) (PyInt 4) (PyInt 0))))
            (PyInt 3))
   \<and> fst (magnitude exact
       (set_x exact (snd (magnitude exact (Vector_init exact (PyInt 1) (PyInt 4) (PyInt 0))))
              (PyInt 3)))
       = Inr 5"
proof -
  let ?u = "snd (magnitude exact (Vector_init exact (PyInt 1) (PyInt 4) (PyInt 0)))"
  have r: "reachable exact (set_x exact ?u (PyInt 3))"
    by (intro r_set_x r_magnitude r_init)
  have ok: "cache_ok exact (set_x exact ?u (PyInt 3))"
    using r cache_invariant [of exact "set_x exact ?u (PyInt 3)" "PyInt 0"] by blast
  have "fst (magnitude exact (set_x exact ?u (PyInt 3)))
        = Inr (sqrt ((float_py exact (PyInt 3))\<^sup>2 + (float_py exact (get_y ?u))\<^sup>2
                     + (float_py exact (get_z ?u))\<^sup>2))"
    using cache_invariant [of exact ?u "PyInt 3"] by blast
  then have "fst (magnitude exact (set_x exact ?u (PyInt 3))) = Inr 5"
    by (simp add: sqrt_25)
  then show ?thesis
    using r ok by simp
qed

subsection \<open>Normalisation\<close>

lemma mul_coords [simp]:
  "get_x (mul fl v k) = PyFloat (float_py fl (py_mul fl (get_x v) k))"
  "get_y (mul fl v k) = PyFloat (float_py fl (py_mul fl (get_y v) k))"
  "get_z (mul fl v k) = PyFloat (float_py fl (py_mul fl (get_z v) k))"
  "priv_magnitude (mul fl v k) = None"
  by (simp_all add: mul_def)

lemma mul_magnitude_cong: "mul fl (snd (magnitude fl' v)) k = mul fl v k"
  by (simp add: mul_def)

lemma euclidean_norm_mul:
  "euclidean_norm (mul exact v k) = \<bar>float_py exact k\<bar> * euclidean_norm v"
proof -
  have "(float_py exact (get_x v) * float_py exact k)\<^sup>2
        + (float_py exact (get_y v) * float_py exact k)\<^sup>2
        + (float_py exact (get_z v) * float_py exact k)\<^sup>2
        = (float_py exact k)\<^sup>2
          * ((float_py exact (get_x v))\<^sup>2 + (float_py exact (get_y v))\<^sup>2
             + (float_py exact (get_z v))\<^sup>2)"
    by (simp add: power_mult_distrib algebra_simps)
  then show ?thesis
    by (simp add: euclidean_norm_def real_sqrt_mult)
qed

lemma normalize_result:
  assumes "cache_ok exact v"
  shows "fst (normalize exact v)
         = (if euclidean_norm v = 0 then Inl (ValueError ''Cannot normalize a zero vector'')
            else Inr (mul exact v (PyFloat (1 / euclidean_norm v))))"
proof -
  obtain v' where m: "magnitude exact v = (Inr (euclidean_norm v), v')"
    using magnitude_exact [OF assms] by (metis prod.collapse)
  have "mul exact v' k = mul exact v k" for k
    using mul_magnitude_cong [of exact exact v k] by (simp add: m)
  then show ?thesis
    by (simp add: normalize_def m isclose_zero_iff py_truediv_exact)
qed

text \<open>
  C2, as the code has it. \<open>normalize\<close> raises \<open>ValueError\<close> exactly when
  \<^verbatim>\<open>math.isclose(mag, 0.0)\<close> holds, and with the default tolerances that is
  exactly when the magnitude is \<open>0\<close>. Otherwise it returns \<open>self * (1 / mag)\<close>,
  a vector of magnitude \<open>1\<close>, which \<open>is_unit\<close> accepts.
\<close>

theorem normalize_raises_iff_zero:
  assumes "cache_ok exact v"
  shows "fst (magnitude exact v) = Inr (euclidean_norm v)
         \<and> (isclose exact (PyFloat (euclidean_norm v)) (PyFloat 0) \<longleftrightarrow> euclidean_norm v = 0)
         \<and> fst (normalize exact v)
             = (if euclidean_norm v = 0 then Inl (ValueError ''Cannot normalize a zero vector'')
                else Inr (mul exact v (PyFloat (1 / euclidean_norm v))))
         \<and> (euclidean_norm v \<noteq> 0 \<longrightarrow>
              fst (magnitude exact (mul exact v (PyFloat (1 / euclidean_norm v)))) = Inr 1
              \<and> fst (is_unit exact (mul exact v (PyFloat (1 / euclidean_norm v)))) = Inr True)"
proof -
  have unit: "euclidean_norm (mul exact v (PyFloat (1 / euclidean_norm v))) = 1"
    if "euclidean_norm v \<noteq> 0"
    using that euclidean_norm_nonneg [of v] by (simp add: euclidean_norm_mul)
  have mag: "magnitude exact (mul exact v k)
             = (Inr (euclidean_norm (mul exact v k)),
                (mul exact v k)\<lparr>priv_magnitude := Some (euclidean_norm (mul exact v k))\<rparr>)" for k
    by (subst magnitude_empty_cache) (simp_all add: computed_norm_exact)
  have "fst (is_unit exact (mul exact v (PyFloat (1 / euclidean_norm v)))) = Inr True"
    if "euclidean_norm v \<noteq> 0"
    using unit [OF that] by (simp add: is_unit_def mag isclose_refl)
  then show ?thesis
    using magnitude_exact [OF assms] normalize_result [OF assms] unit
    by (simp add: isclose_zero_iff mag)
qed

theorem normalize_raises_iff_zero_witness:
  "cache_ok exact (Vector_init exact (PyInt 3) (PyInt 4) (PyInt 0))
   \<and> fst (normalize exact (Vector_init exact (PyInt 3) (PyInt 4) (PyInt 0)))
       = Inr (Vector_init exact (PyFloat (3 / 5)) (PyFloat (4 / 5)) (PyInt 0))
   \<and> fst (is_unit exact (Vector_init exact (PyFloat (3 / 5)) (PyFloat (4 / 5)) (PyInt 0)))
       = Inr True"
proof -
  let ?v = "Vector_init exact (PyInt 3) (PyInt 4) (PyInt 0)"
  have n: "euclidean_norm ?v = 5"
    by (simp add: euclidean_norm_def sqrt_25)
  have k: "mul exact ?v (PyFloat (1 / 5))
           = Vector_init exact (PyFloat (3 / 5)) (PyFloat (4 / 5)) (PyInt 0)"
    unfolding mul_def by (rule Vector_init_eqI) simp_all
  show ?thesis
    using normalize_raises_iff_zero [OF cache_ok_init, of exact "PyInt 3" "PyInt 4" "PyInt 0"]
    by (simp only: n k cache_ok_init) simp
qed

lemma sqrt_sq_tiny: "sqrt ((1 / 2 ^ 100)\<^sup>2) = 1 / 2 ^ 100"
  by (rule real_sqrt_unique) simp_all

lemma sqrt_tiny_numeral:
  "sqrt (1 / 1606938044258990275541962092341162602522202993782792835301376)
   = 1 / 1267650600228229401496703205376"
  by (rule real_sqrt_unique) (simp_all add: power_divide)

lemma normalize_tiny_binary64:
  "fst (normalize binary64 (Vector_init binary64 (PyFloat (1 / 2 ^ 100)) (PyInt 0) (PyInt 0)))
   = Inr (Vector_init binary64 (PyInt 1) (PyInt 0) (PyInt 0))"
  by (simp add: normalize_def magnitude_def math_sqrt_def isclose_def rel_tol_def abs_tol_def
        mul_def get_x_def get_y_def get_z_def Vector_init_def binary64_def round_half_even_def
        sqrt_tiny_numeral power_divide split del: if_split)

text \<open>
  C2, as the claim states it, fails: the check is no tolerance. The vector
  \<open>(2\<^sup>-\<^sup>1\<^sup>0\<^sup>0, 0, 0)\<close> has a magnitude far below the tolerance constant
  \<open>1e-09\<close>, and \<open>normalize\<close> does not raise on it: it returns \<open>(1, 0, 0)\<close>, under
  exact arithmetic and under machine arithmetic alike.
\<close>

theorem normalize_tiny_vector_counterexample:
  "fst (magnitude exact (Vector_init exact (PyFloat (1 / 2 ^ 100)) (PyInt 0) (PyInt 0)))
     = Inr (1 / 2 ^ 100)
   \<and> (1 / 2 ^ 100 :: real) < rel_tol exact
   \<and> fst (normalize exact (Vector_init exact (PyFloat (1 / 2 ^ 100)) (PyInt 0) (PyInt 0)))
       = Inr (Vector_init exact (PyInt 1) (PyInt 0) (PyInt 0))
   \<and> fst (normalize binary64 (Vector_init binary64 (PyFloat (1 / 2 ^ 100)) (PyInt 0) (PyInt 0)))
       = Inr (Vector_init binary64 (PyInt 1) (PyInt 0) (PyInt 0))"
proof -
  let ?v = "Vector_init exact (PyFloat (1 / 2 ^ 100)) (PyInt 0) (PyInt 0)"
  have n: "euclidean_norm ?v = 1 / 2 ^ 100"
    using sqrt_sq_tiny by (simp add: euclidean_norm_def)
  have m: "fst (magnitude exact ?v) = Inr (1 / 2 ^ 100)"
    using magnitude_exact [OF cache_ok_init, of exact "PyFloat (1 / 2 ^ 100)" "PyInt 0" "PyInt 0"]
    by (simp only: n)
  have "(1 / 2 ^ 100 :: real) < rel_tol exact"
    by (simp add: rel_tol_def)
  moreover have "mul exact ?v (PyFloat (1 / (1 / 2 ^ 100)))
                 = Vector_init exact (PyInt 1) (PyInt 0) (PyInt 0)"
    unfolding mul_def by (rule Vector_init_eqI) simp_all
  then have "fst (normalize exact ?v) = Inr (Vector_init exact (PyInt 1) (PyInt 0) (PyInt 0))"
    using normalize_result [OF cache_ok_init, of exact "PyFloat (1 / 2 ^ 100)" "PyInt 0" "PyInt 0"]
    by (simp only: n) simp
  ultimately show ?thesis using m normalize_tiny_binary64 by simp
qed

subsection \<open>Products\<close>

text \<open>
  C7. The cross product is anti-commutative: \<open>v.cross_product(w)\<close> is
  \<open>w.cross_product(v) * (-1)\<close>, as the same instance and under \<^verbatim>\<open>==\<close>. Its
  coordinates are \<open>(y1 z2 - z1 y2, z1 x2 - x1 z2, x1 y2 - y1 x2)\<close>, and
  \<open>Vector(1,0,0).cross_product(Vector(0,1,0))\<close> is \<open>Vector(0,0,1)\<close>.
\<close>

theorem cross_product_anticommutative:
  "cross_product exact v w = mul exact (cross_product exact w v) (PyInt (- 1))
   \<and> eq exact (cross_product exact v w)
              (IsVector (mul exact (cross_product exact w v) (PyInt (- 1))))
   \<and> float_py exact (get_x (cross_product exact v w))
       = float_py exact (get_y v) * float_py exact (get_z w)
         - float_py exact (get_z v) * float_py exact (get_y w)
   \<and> float_py exact (get_y (cross_product exact v w))
       = float_py exact (get_z v) * float_py exact (get_x w)
         - float_py exact (get_x v) * float_py exact (get_z w)
   \<and> float_py exact (get_z (cross_product exact v w))
       = float_py exact (get_x v) * float_py exact (get_y w)
         - float_py exact (get_y v) * float_py exact (get_x w)
   \<and> cross_product exact (Vector_init exact (PyInt 1) (PyInt 0) (PyInt 0))
                           (Vector_init exact (PyInt 0) (PyInt 1) (PyInt 0))
       = Vector_init exact (PyInt 0) (PyInt 0) (PyInt 1)"
proof -
  have anti: "cross_product exact v w = mul exact (cross_product exact w v) (PyInt (- 1))"
    unfolding cross_product_def mul_def
    by (rule Vector_init_eqI) (simp_all add: algebra_simps)
  have unit: "cross_product exact (Vector_init exact (PyInt 1) (PyInt 0) (PyInt 0))
                                  (Vector_init exact (PyInt 0) (PyInt 1) (PyInt 0))
              = Vector_init exact (PyInt 0) (PyInt 0) (PyInt 1)"
    unfolding cross_product_def by (rule Vector_init_eqI) simp_all
  show ?thesis
    using unit eq_refl by (simp add: anti [symmetric]) (simp add: cross_product_def)
qed

text \<open>
  C4. The vector triple product computed by the direct formula,
  \<open>v * a.dot_product(w) - w * a.dot_product(v)\<close>, is the instance that composing
  the two cross products gives, \<open>a.cross_product(v.cross_product(w))\<close>: the same
  three coordinates.
\<close>

theorem triple_vector_product_is_cross_of_cross:
  "triple_vector_product exact a v w = cross_product exact a (cross_product exact v w)"
  unfolding triple_vector_product_def cross_product_def sub_def mul_def dot_product_def
  by (rule Vector_init_eqI) (simp_all add: algebra_simps)

subsection \<open>Direction cosines, equality of coordinates, setters\<close>

lemma direction_cosine_result:
  assumes "fst (magnitude exact v) = Inr m"
  shows "fst (direction_cosine exact v)
         = Inr (if isclose exact (PyFloat m) (PyFloat 0) then Message ''Undefined for zero vector''
                else Cosines (PyFloat (float_py exact (get_x v) / m))
                             (PyFloat (float_py exact (get_y v) / m))
                             (PyFloat (float_py exact (get_z v) / m)))"
proof -
  obtain v' where m: "magnitude exact v = (Inr m, v')"
    using assms by (metis prod.collapse)
  have "get_x v' = get_x v" "get_y v' = get_y v" "get_z v' = get_z v"
    using magnitude_coords [of exact v] by (simp_all add: m)
  then show ?thesis
    by (simp add: direction_cosine_def m isclose_zero_iff py_truediv_exact)
qed

text \<open>
  C8. \<open>direction_cosine\<close> never raises. On an instance with a sound cache it
  returns the message exactly when \<open>is_zero\<close> holds of the vector, that is when
  \<^verbatim>\<open>math.isclose(mag, 0.0)\<close>, and the triple \<open>(x/|v|, y/|v|, z/|v|)\<close> otherwise.
\<close>

theorem direction_cosine_never_raises:
  "(\<forall>e. fst (direction_cosine exact v) \<noteq> Inl e)
   \<and> (cache_ok exact v \<longrightarrow>
        fst (is_zero exact v) = Inr (isclose exact (PyFloat (euclidean_norm v)) (PyFloat 0))
        \<and> (fst (direction_cosine exact v) = Inr (Message ''Undefined for zero vector'')
             \<longleftrightarrow> fst (is_zero exact v) = Inr True)
        \<and> (fst (is_zero exact v) \<noteq> Inr True \<longrightarrow>
             fst (direction_cosine exact v)
             = Inr (Cosines (PyFloat (float_py exact (get_x v) / euclidean_norm v))
                            (PyFloat (float_py exact (get_y v) / euclidean_norm v))
                            (PyFloat (float_py exact (get_z v) / euclidean_norm v)))))"
proof -
  have total: "fst (direction_cosine exact v) \<noteq> Inl e" for e
    using magnitude_returns [of v] direction_cosine_result [of v] by auto
  have rest: "fst (is_zero exact v) = Inr (isclose exact (PyFloat (euclidean_norm v)) (PyFloat 0))
        \<and> (fst (direction_cosine exact v) = Inr (Message ''Undefined for zero vector'')
             \<longleftrightarrow> fst (is_zero exact v) = Inr True)
        \<and> (fst (is_zero exact v) \<noteq> Inr True \<longrightarrow>
             fst (direction_cosine exact v)
             = Inr (Cosines (PyFloat (float_py exact (get_x v) / euclidean_norm v))
                            (PyFloat (float_py exact (get_y v) / euclidean_norm v))
                            (PyFloat (float_py exact (get_z v) / euclidean_norm v))))"
    if ok: "cache_ok exact v"
  proof -
    have m: "fst (magnitude exact v) = Inr (euclidean_norm v)"
      by (rule magnitude_exact [OF ok])
    obtain v' where m': "magnitude exact v = (Inr (euclidean_norm v), v')"
      using m by (metis prod.collapse)
    have z: "fst (is_zero exact v)
             = Inr (isclose exact (PyFloat (euclidean_norm v)) (PyFloat 0))"
      by (simp add: is_zero_def m')
    show ?thesis
      using direction_cosine_result [OF m] by (simp add: z)
  qed
  show ?thesis using total rest by blast
qed

theorem direction_cosine_never_raises_witness:
  "cache_ok exact (Vector_init exact (PyInt 3) (PyInt 4) (PyInt 0))
   \<and> fst (direction_cosine exact (Vector_init exact (PyInt 3) (PyInt 4) (PyInt 0)))
       = Inr (Cosines (PyFloat (3 / 5)) (PyFloat (4 / 5)) (PyFloat 0))
   \<and> cache_ok exact (Vector_init exact (PyInt 0) (PyInt 0) (PyInt 0))
   \<and> fst (direction_cosine exact (Vector_init exact (PyInt 0) (PyInt 0) (PyInt 0)))
       = Inr (Message ''Undefined for zero vector'')"
proof -
  have n: "euclidean_norm (Vector_init exact (PyInt 3) (PyInt 4) (PyInt 0)) = 5"
    by (simp add: euclidean_norm_def sqrt_25)
  have z: "euclidean_norm (Vector_init exact (PyInt 0) (PyInt 0) (PyInt 0)) = 0"
    by (simp add: euclidean_norm_def)
  show ?thesis
    using direction_cosine_never_raises [of "Vector_init exact (PyInt 3) (PyInt 4) (PyInt 0)"]
      direction_cosine_never_raises [of "Vector_init exact (PyInt 0) (PyInt 0) (PyInt 0)"]
    by (simp add: n z cache_ok_init isclose_zero_iff)
qed

lemma isclose_approx_equal:
  "isclose exact a b \<longleftrightarrow> approx_equal (float_py exact a) (float_py exact b)"
proof -
  have r: "rel_tol exact = 1 / 10 ^ 9" by (simp add: rel_tol_def)
  have "\<bar>1 / 10 ^ 9 * x\<bar> = 1 / 10 ^ 9 * \<bar>x\<bar>" for x :: real
    by (simp add: abs_mult)
  moreover have "max (1 / 10 ^ 9 * max \<bar>x\<bar> \<bar>y\<bar>) 0
                 = max (1 / 10 ^ 9 * \<bar>x\<bar>) (1 / 10 ^ 9 * \<bar>y\<bar>)" for x y :: real
  proof -
    have "0 \<le> 1 / 10 ^ 9 * max \<bar>x\<bar> \<bar>y\<bar>" by simp
    then have "max (1 / 10 ^ 9 * max \<bar>x\<bar> \<bar>y\<bar>) 0 = 1 / 10 ^ 9 * max \<bar>x\<bar> \<bar>y\<bar>" by simp
    also have "\<dots> = max (1 / 10 ^ 9 * \<bar>x\<bar>) (1 / 10 ^ 9 * \<bar>y\<bar>)"
      by (simp add: max_mult_distrib_left)
    finally show ?thesis .
  qed
  moreover have "0 \<le> 1 / 10 ^ 9 * \<bar>x\<bar>" for x :: real
    by simp
  ultimately show ?thesis
    unfolding isclose_def approx_equal_def Let_def abs_tol_def r exact_apply
    by (auto simp: abs_minus_commute le_max_iff_disj)
qed

text \<open>
  C9. Two instances are equal under \<^verbatim>\<open>==\<close> exactly when each pair of
  coordinates is close under the relative and absolute tolerances of
  \<^verbatim>\<open>math.isclose\<close>. This is not exact equality: \<open>(1, 2, 3)\<close> and
  \<open>(1 + 1e-10, 2, 3)\<close> are equal, though \<open>(1 + 1e-8, 2, 3)\<close> is not.
\<close>

theorem eq_iff_coordinates_close:
  "(eq exact a (IsVector b)
      \<longleftrightarrow> approx_equal (float_py exact (get_x a)) (float_py exact (get_x b))
        \<and> approx_equal (float_py exact (get_y a)) (float_py exact (get_y b))
        \<and> approx_equal (float_py exact (get_z a)) (float_py exact (get_z b)))
   \<and> eq exact (Vector_init exact (PyInt 1) (PyInt 2) (PyInt 3))
         (IsVector (Vector_init exact (PyFloat (1 + 1 / 10 ^ 10)) (PyInt 2) (PyInt 3)))
   \<and> Vector_init exact (PyInt 1) (PyInt 2) (PyInt 3)
       \<noteq> Vector_init exact (PyFloat (1 + 1 / 10 ^ 10)) (PyInt 2) (PyInt 3)
   \<and> \<not> eq exact (Vector_init exact (PyInt 1) (PyInt 2) (PyInt 3))
           (IsVector (Vector_init exact (PyFloat (1 + 1 / 10 ^ 8)) (PyInt 2) (PyInt 3)))"
proof -
  have "approx_equal 1 (1 + 1 / 10 ^ 10)"
    by (simp add: approx_equal_def)
  moreover have "\<not> approx_equal 1 (1 + 1 / 10 ^ 8)"
    by (simp add: approx_equal_def)
  moreover have "approx_equal x x" for x
    by (simp add: approx_equal_def)
  moreover have "Vector_init exact (PyInt 1) (PyInt 2) (PyInt 3)
       \<noteq> Vector_init exact (PyFloat (1 + 1 / 10 ^ 10)) (PyInt 2) (PyInt 3)"
    by (simp add: Vector_init_def)
  ultimately show ?thesis
    by (simp add: isclose_approx_equal)
qed

text \<open>
  C3 fails for \<open>z\<close>. Assigning the int \<open>5\<close> through the setter of \<open>z\<close> stores the
  int itself, and the getter returns it, where the setters of \<open>x\<close> and \<open>y\<close> store
  and return the float \<open>5.0\<close>.
\<close>

theorem set_z_stores_unconverted:
  "get_z (set_z (Vector_init exact (PyInt 1) (PyInt 2) (PyInt 3)) (PyInt 5)) = PyInt 5
   \<and> PyInt 5 \<noteq> PyFloat (float_py exact (PyInt 5))
   \<and> get_x (set_x exact (Vector_init exact (PyInt 1) (PyInt 2) (PyInt 3)) (PyInt 5)) = PyFloat 5
   \<and> get_y (set_y exact (Vector_init exact (PyInt 1) (PyInt 2) (PyInt 3)) (PyInt 5)) = PyFloat 5"
  by (simp add: set_x_def set_y_def set_z_def get_x_def get_y_def get_z_def)

subsection \<open>Projection and reflection\<close>

lemma sub_single_coords [simp]:
  "get_x (sub exact u [p]) = PyFloat (float_py exact (get_x u) - float_py exact (get_x p))"
  "get_y (sub exact u [p]) = PyFloat (float_py exact (get_y u) - float_py exact (get_y p))"
  "get_z (sub exact u [p]) = PyFloat (float_py exact (get_z u) - float_py exact (get_z p))"
  "priv_magnitude (sub fl u [p]) = None"
  by (simp_all add: sub_def)

lemma float_py_dot_product:
  "float_py exact (dot_product exact u v)
   = float_py exact (get_x u) * float_py exact (get_x v)
     + float_py exact (get_y u) * float_py exact (get_y v)
     + float_py exact (get_z u) * float_py exact (get_z v)"
  by (simp add: dot_product_def)

text \<open>The projection onto a vector with a sound cache and a non-zero norm.\<close>

lemma projection_result:
  assumes "cache_ok exact v" and "euclidean_norm v \<noteq> 0"
  shows "projection exact u v
         = (Inr (mul exact v
                  (PyFloat (float_py exact (dot_product exact u v) / (euclidean_norm v)\<^sup>2))),
            snd (magnitude exact v))"
proof -
  obtain v' where m: "magnitude exact v = (Inr (euclidean_norm v), v')"
    using magnitude_exact [OF assms(1)] by (metis prod.collapse)
  have c: "get_x v' = get_x v" "get_y v' = get_y v" "get_z v' = get_z v"
    using magnitude_coords [of exact v] by (simp_all add: m)
  have "mul exact v' k = mul exact v k" for k
    by (simp add: mul_def c)
  moreover have "dot_product exact u v' = dot_product exact u v"
    by (simp add: dot_product_def c)
  ultimately show ?thesis
    using assms(2) by (simp add: projection_def m isclose_zero_iff py_truediv_exact)
qed

lemma is_zero_result:
  assumes "cache_ok exact v"
  shows "fst (is_zero exact v) = Inr (euclidean_norm v = 0)"
proof -
  obtain v' where m: "magnitude exact v = (Inr (euclidean_norm v), v')"
    using magnitude_exact [OF assms] by (metis prod.collapse)
  show ?thesis by (simp add: is_zero_def m isclose_zero_iff)
qed

lemma is_unit_result:
  assumes "cache_ok exact v"
  shows "fst (is_unit exact v) = Inr (isclose exact (PyFloat (euclidean_norm v)) (PyFloat 1))"
proof -
  obtain v' where m: "magnitude exact v = (Inr (euclidean_norm v), v')"
    using magnitude_exact [OF assms] by (metis prod.collapse)
  show ?thesis by (simp add: is_unit_def m)
qed

lemma is_parallel_result:
  "is_parallel exact u v = Inr (euclidean_norm (cross_product exact u v) = 0)"
  unfolding is_parallel_def cross_product_def
  by (rule is_zero_result) (rule cache_ok_init)

lemma cross_product_scaled_zero:
  "euclidean_norm (cross_product exact (mul exact w k) w') = 0"
  if "get_x w' = get_x w" "get_y w' = get_y w" "get_z w' = get_z w"
  using that by (simp add: euclidean_norm_zero_iff cross_product_def)

text \<open>
  C6, under exact arithmetic. For a vector \<open>w\<close> that \<open>is_zero\<close> rejects, the
  projection of any \<open>v\<close> onto \<open>w\<close> is returned, and \<open>is_parallel\<close> holds between it
  and \<open>w\<close>.
\<close>

theorem projection_is_parallel:
  assumes "cache_ok exact w" and "fst (is_zero exact w) = Inr False"
  shows "\<exists>p w'. projection exact v w = (Inr p, w') \<and> is_parallel exact p w' = Inr True
                 \<and> is_parallel exact p w = Inr True"
proof -
  have nz: "euclidean_norm w \<noteq> 0"
    using assms by (simp add: is_zero_result)
  let ?p = "mul exact w (PyFloat (float_py exact (dot_product exact v w) / (euclidean_norm w)\<^sup>2))"
  have "projection exact v w = (Inr ?p, snd (magnitude exact w))"
    by (rule projection_result [OF assms(1) nz])
  moreover have "is_parallel exact ?p (snd (magnitude exact w)) = Inr True"
    by (simp add: is_parallel_result cross_product_scaled_zero)
  moreover have "is_parallel exact ?p w = Inr True"
    by (simp add: is_parallel_result cross_product_scaled_zero)
  ultimately show ?thesis by blast
qed

theorem projection_is_parallel_witness:
  "cache_ok exact (Vector_init exact (PyInt 5) (PyInt 12) (PyInt 0))
   \<and> fst (is_zero exact (Vector_init exact (PyInt 5) (PyInt 12) (PyInt 0))) = Inr False
   \<and> (\<exists>p w'. projection exact (Vector_init exact (PyInt 1) (PyInt 0) (PyInt 0))
                          (Vector_init exact (PyInt 5) (PyInt 12) (PyInt 0)) = (Inr p, w')
              \<and> is_parallel exact p w' = Inr True
              \<and> is_parallel exact p (Vector_init exact (PyInt 5) (PyInt 12) (PyInt 0)) = Inr True)"
proof -
  let ?w = "Vector_init exact (PyInt 5) (PyInt 12) (PyInt 0)"
  have "sqrt 169 = 13"
    by (rule real_sqrt_unique) simp_all
  then have n: "euclidean_norm ?w = 13"
    by (simp add: euclidean_norm_def)
  have z: "fst (is_zero exact ?w) = Inr False"
    by (simp add: is_zero_result cache_ok_init n)
  show ?thesis
    using projection_is_parallel [OF cache_ok_init z] z cache_ok_init by blast
qed

text \<open>Reflection, on the level of the coordinates.\<close>

lemma reflect_result:
  assumes "cache_ok exact n" and "euclidean_norm n \<noteq> 0"
  shows "reflect exact u n
         = (Inr (sub exact u
                  [rmul exact
                     (mul exact n
                        (PyFloat (float_py exact (dot_product exact u n) / (euclidean_norm n)\<^sup>2)))
                     (PyInt 2)]),
            snd (magnitude exact n))"
  by (simp add: reflect_def projection_result [OF assms])

lemma reflect_twice_coords:
  fixes ux uy uz nx ny nz :: real
  assumes "nx\<^sup>2 + ny\<^sup>2 + nz\<^sup>2 \<noteq> 0"
  defines "s \<equiv> nx\<^sup>2 + ny\<^sup>2 + nz\<^sup>2"
  defines "c \<equiv> (ux * nx + uy * ny + uz * nz) / s"
  defines "rx \<equiv> ux - nx * c * 2" and "ry \<equiv> uy - ny * c * 2" and "rz \<equiv> uz - nz * c * 2"
  defines "d \<equiv> (rx * nx + ry * ny + rz * nz) / s"
  shows "rx - nx * d * 2 = ux" and "ry - ny * d * 2 = uy" and "rz - nz * d * 2 = uz"
proof -
  have s: "s \<noteq> 0" using assms(1) by (simp add: s_def)
  have "rx * nx + ry * ny + rz * nz = (ux * nx + uy * ny + uz * nz) - 2 * c * s"
    by (simp add: rx_def ry_def rz_def s_def power2_eq_square algebra_simps)
  also have "\<dots> = - (ux * nx + uy * ny + uz * nz)"
    using s by (simp add: c_def)
  finally have "d = - c"
    by (simp add: d_def c_def divide_simps)
  then show "rx - nx * d * 2 = ux" and "ry - ny * d * 2 = uy" and "rz - nz * d * 2 = uz"
    by (simp_all add: rx_def ry_def rz_def)
qed

text \<open>
  C5. For a normal \<open>n\<close> that \<open>is_unit\<close> accepts, reflecting \<open>v\<close> across \<open>n\<close> twice
  returns both times, and the second result has the coordinates of \<open>v\<close>: it is
  equal to \<open>v\<close> under \<^verbatim>\<open>==\<close>.
\<close>

theorem reflect_twice:
  assumes "cache_ok exact n" and "fst (is_unit exact n) = Inr True"
  shows "\<exists>r n' r2 n''.
           reflect exact v n = (Inr r, n') \<and> reflect exact r n' = (Inr r2, n'')
           \<and> eq exact r2 (IsVector v)
           \<and> float_py exact (get_x r2) = float_py exact (get_x v)
           \<and> float_py exact (get_y r2) = float_py exact (get_y v)
           \<and> float_py exact (get_z r2) = float_py exact (get_z v)"
proof -
  have nz: "euclidean_norm n \<noteq> 0"
    using assms not_isclose_zero_one by (auto simp: is_unit_result)
  let ?n' = "snd (magnitude exact n)"
  let ?r = "sub exact v
              [rmul exact
                 (mul exact n
                    (PyFloat (float_py exact (dot_product exact v n) / (euclidean_norm n)\<^sup>2)))
                 (PyInt 2)]"
  let ?r2 = "sub exact ?r
               [rmul exact
                  (mul exact ?n'
                     (PyFloat (float_py exact (dot_product exact ?r ?n') / (euclidean_norm ?n')\<^sup>2)))
                  (PyInt 2)]"
  have ok': "cache_ok exact ?n'"
    by (rule magnitude_cache_ok(2) [OF assms(1)])
  have norm': "euclidean_norm ?n' = euclidean_norm n"
    by (rule euclidean_norm_cong) simp_all
  have first: "reflect exact v n = (Inr ?r, ?n')"
    by (rule reflect_result [OF assms(1) nz])
  have second: "reflect exact ?r ?n' = (Inr ?r2, snd (magnitude exact ?n'))"
    using nz by (intro reflect_result ok') (simp add: norm')
  have s: "(float_py exact (get_x n))\<^sup>2 + (float_py exact (get_y n))\<^sup>2
           + (float_py exact (get_z n))\<^sup>2 \<noteq> 0"
    using nz by (simp add: euclidean_norm_sq [symmetric])
  have x: "float_py exact (get_x ?r2) = float_py exact (get_x v)"
    and y: "float_py exact (get_y ?r2) = float_py exact (get_y v)"
    and z: "float_py exact (get_z ?r2) = float_py exact (get_z v)"
    using reflect_twice_coords [OF s, where ux = "float_py exact (get_x v)"
            and uy = "float_py exact (get_y v)" and uz = "float_py exact (get_z v)"]
    by (simp_all add: rmul_def float_py_dot_product norm' euclidean_norm_sq)
  have "eq exact ?r2 (IsVector v)"
    using x y z by (simp add: isclose_def)
  then show ?thesis
    using first second x y z by blast
qed

theorem reflect_twice_witness:
  "cache_ok exact (Vector_init exact (PyInt 0) (PyInt 0) (PyInt 1))
   \<and> fst (is_unit exact (Vector_init exact (PyInt 0) (PyInt 0) (PyInt 1))) = Inr True
   \<and> (\<exists>r n' r2 n''.
         reflect exact (Vector_init exact (PyInt 1) (PyInt 2) (PyInt 3))
                       (Vector_init exact (PyInt 0) (PyInt 0) (PyInt 1)) = (Inr r, n')
         \<and> reflect exact r n' = (Inr r2, n'')
         \<and> eq exact r2 (IsVector (Vector_init exact (PyInt 1) (PyInt 2) (PyInt 3)))
         \<and> float_py exact (get_x r2) = 1 \<and> float_py exact (get_y r2) = 2
         \<and> float_py exact (get_z r2) = 3)"
proof -
  let ?n = "Vector_init exact (PyInt 0) (PyInt 0) (PyInt 1)"
  have n: "euclidean_norm ?n = 1"
    by (simp add: euclidean_norm_def)
  have u: "fst (is_unit exact ?n) = Inr True"
    by (simp add: is_unit_result cache_ok_init n isclose_refl)
  show ?thesis
    using reflect_twice [OF cache_ok_init u, of "Vector_init exact (PyInt 1) (PyInt 2) (PyInt 3)"]
      u cache_ok_init
    by simp
qed

subsection \<open>Equality with another object\<close>

text \<open>
  C10. Compared with a value that is not an instance of the class, a vector is
  never equal: \<^verbatim>\<open>__eq__\<close> returns \<open>False\<close>, whatever the coordinates, and raises
  nothing.
\<close>

theorem eq_not_a_vector: "eq fl v (NotVector other) = False"
  by simp

subsection \<open>The projection under machine arithmetic\<close>

lemma sqrt_169: "sqrt 169 = 13"
  by (rule real_sqrt_unique) simp_all

lemma sqrt_residue: "sqrt (1 / 20282409603651670423947251286016) = 1 / 4503599627370496"
  by (rule real_sqrt_unique) (simp_all add: power_divide)

lemma is_zero_5_12_0:
  "is_zero binary64 (Vector_init binary64 (PyInt 5) (PyInt 12) (PyInt 0))
   = (Inr False, (Vector_init binary64 (PyInt 5) (PyInt 12) (PyInt 0))\<lparr>priv_magnitude := Some 13\<rparr>)"
  by (simp add: is_zero_def magnitude_def math_sqrt_def isclose_def rel_tol_def abs_tol_def
        binary64_def round_half_even_def sqrt_169 split del: if_split)

lemma magnitude_5_12_0:
  "magnitude binary64 (Vector_init binary64 (PyInt 5) (PyInt 12) (PyInt 0))
   = (Inr 13, (Vector_init binary64 (PyInt 5) (PyInt 12) (PyInt 0))\<lparr>priv_magnitude := Some 13\<rparr>)"
  by (simp add: magnitude_def math_sqrt_def binary64_def round_half_even_def sqrt_169
        split del: if_split)

lemma projection_1_0_0_onto_5_12_0:
  "projection binary64 (Vector_init binary64 (PyInt 1) (PyInt 0) (PyInt 0))
                       (Vector_init binary64 (PyInt 5) (PyInt 12) (PyInt 0))
   = (Inr (Vector_init binary64 (PyFloat (1332425925257543 / 9007199254740992))
                                (PyFloat (6395644441236207 / 18014398509481984)) (PyFloat 0)),
      (Vector_init binary64 (PyInt 5) (PyInt 12) (PyInt 0))\<lparr>priv_magnitude := Some 13\<rparr>)"
  unfolding projection_def magnitude_5_12_0
  by (simp add: isclose_def rel_tol_def abs_tol_def dot_product_def mul_def get_x_def get_y_def
        get_z_def Vector_init_def binary64_def round_half_even_def split del: if_split)

lemma cross_product_of_projection:
  "cross_product binary64
     (Vector_init binary64 (PyFloat (1332425925257543 / 9007199254740992))
                           (PyFloat (6395644441236207 / 18014398509481984)) (PyFloat 0))
     (Vector_init binary64 (PyInt 5) (PyInt 12) (PyInt 0))
   = Vector_init binary64 (PyFloat 0) (PyFloat 0) (PyFloat (- (1 / 2 ^ 52)))"
  by (simp add: cross_product_def get_x_def get_y_def get_z_def Vector_init_def binary64_def
        round_half_even_def split del: if_split)

lemma cross_product_cache:
  "cross_product fl u (v\<lparr>priv_magnitude := c\<rparr>) = cross_product fl u v"
  by (simp add: cross_product_def get_x_def get_y_def get_z_def)

lemma magnitude_of_residue:
  "magnitude binary64 (Vector_init binary64 (PyFloat 0) (PyFloat 0) (PyFloat (- (1 / 2 ^ 52))))
   = (Inr (1 / 2 ^ 52),
      (Vector_init binary64 (PyFloat 0) (PyFloat 0) (PyFloat (- (1 / 2 ^ 52))))
        \<lparr>priv_magnitude := Some (1 / 2 ^ 52)\<rparr>)"
  by (simp add: magnitude_def math_sqrt_def binary64_def round_half_even_def sqrt_residue
        power_divide split del: if_split)

lemma residue_not_close_to_zero:
  "\<not> isclose binary64 (PyFloat (1 / 2 ^ 52)) (PyFloat 0)"
  by (simp add: isclose_def rel_tol_def abs_tol_def binary64_def round_half_even_def
        split del: if_split)

text \<open>
  C6, as the claim states it, fails under machine arithmetic. The vector
  \<open>w = (5, 12, 0)\<close> has magnitude 13 and \<open>is_zero\<close> rejects it. The projection of
  \<open>(1, 0, 0)\<close> onto it is \<open>w * (5 / 169)\<close> with each product rounded, the cross
  product of that with \<open>w\<close> has the \<open>z\<close> coordinate \<open>-2\<^sup>-\<^sup>5\<^sup>2\<close>, and
  \<^verbatim>\<open>math.isclose(2**-52, 0.0)\<close> is false: \<open>is_parallel\<close> returns \<open>False\<close>.
\<close>

theorem projection_not_parallel_counterexample:
  "fst (is_zero binary64 (Vector_init binary64 (PyInt 5) (PyInt 12) (PyInt 0))) = Inr False
   \<and> projection binary64 (Vector_init binary64 (PyInt 1) (PyInt 0) (PyInt 0))
                          (Vector_init binary64 (PyInt 5) (PyInt 12) (PyInt 0))
       = (Inr (Vector_init binary64 (PyFloat (1332425925257543 / 9007199254740992))
                                    (PyFloat (6395644441236207 / 18014398509481984)) (PyFloat 0)),
          (Vector_init binary64 (PyInt 5) (PyInt 12) (PyInt 0))\<lparr>priv_magnitude := Some 13\<rparr>)
   \<and> is_parallel binary64
         (Vector_init binary64 (PyFloat (1332425925257543 / 9007199254740992))
                               (PyFloat (6395644441236207 / 18014398509481984)) (PyFloat 0))
         ((Vector_init binary64 (PyInt 5) (PyInt 12) (PyInt 0))\<lparr>priv_magnitude := Some 13\<rparr>)
       = Inr False
   \<and> is_parallel binary64
         (Vector_init binary64 (PyFloat (1332425925257543 / 9007199254740992))
                               (PyFloat (6395644441236207 / 18014398509481984)) (PyFloat 0))
         (Vector_init binary64 (PyInt 5) (PyInt 12) (PyInt 0))
       = Inr False"
proof -
  have "is_parallel binary64
         (Vector_init binary64 (PyFloat (1332425925257543 / 9007199254740992))
                               (PyFloat (6395644441236207 / 18014398509481984)) (PyFloat 0))
         (Vector_init binary64 (PyInt 5) (PyInt 12) (PyInt 0))
        = Inr False"
    unfolding is_parallel_def cross_product_of_projection is_zero_def magnitude_of_residue
    using residue_not_close_to_zero by simp
  then show ?thesis
    unfolding is_parallel_def cross_product_cache
    by (simp only: is_zero_5_12_0 projection_1_0_0_onto_5_12_0 fst_conv simp_thms)
qed

end
